theory Spec2Isabelle
  imports Main "HOL-Library.Word"
begin

section \<open>The stream client of zkevm-data-streamer (datastreamer/streamclient.go)\<close>

text \<open>
  The client owns one TCP connection, four buffered channels and a handful of flags.
  Three goroutines share it: the caller issuing commands (\<open>execCommand\<close>), the packet
  dispatcher (\<open>readEntries\<close>) and the streaming consumer (\<open>getStreaming\<close>). Each
  function is embedded as a state transformer on the client record. A channel is the FIFO
  list of the values buffered in it: a receive takes the head, a send appends at the end;
  a receive on an empty channel and a send on a full one do not return, which is the
  outcome \<open>Blocks\<close>. The network is a script: the outcomes of the coming dials, and for
  each connection the outcomes of its coming writes and the bytes the server delivers.
\<close>

unbundle bit_operations_syntax

subsection \<open>Data\<close>

type_synonym byte = "8 word"
type_synonym uint32 = "32 word"
type_synonym uint64 = "64 word"

text \<open>\<open>Command\<close> and \<open>StreamType\<close> are integer types converted with \<open>uint64(...)\<close>.\<close>

type_synonym Command = uint64
type_synonym StreamType = uint64

text \<open>
  The error values the file returns. \<open>EOF\<close>, \<open>ErrUnexpectedEOF\<close> and \<open>ErrClosed\<close> come
  from the connection; \<open>ErrOther n\<close> is any other error of the network, the codec or a
  callback.
\<close>

datatype error =
    ErrExecCommandNotAllowed
  | ErrInvalidCommand
  | ErrResultCommandError
  | ErrEntryNotFound
  | ErrBookmarkNotFound
  | ErrNilConnection
  | ErrReadingDataEntry
  | ErrReadingResultEntry
  | ErrGettingHeaderInfo
  | EOF
  | ErrUnexpectedEOF
  | ErrClosed
  | ErrOther nat

text \<open>
  The three entry types are declared outside this file. The fields the client reads fix
  their types: \<open>TotalEntries\<close> is assigned to the \<open>uint64\<close> field \<open>totalEntries\<close>,
  \<open>Number + 1\<close> to the \<open>uint64\<close> field \<open>nextEntry\<close>, \<open>errorNum\<close> is compared with a
  \<open>uint32\<close>. The remaining fields are only logged.
\<close>

record HeaderEntry =
  TotalEntries :: uint64
  TotalLength :: uint64
  Version :: byte
  SystemID :: uint64

record FileEntry =
  Number :: uint64
  Length :: uint32
  Type :: uint32
  Data :: "byte list"

record ResultEntry =
  errorNum :: uint32
  errorStr :: "byte list"

text \<open>The values of \<open>HeaderEntry{}\<close> and \<open>FileEntry{}\<close>.\<close>

definition HeaderEntry_zero :: HeaderEntry where
  "HeaderEntry_zero = \<lparr>TotalEntries = 0, TotalLength = 0, Version = 0, SystemID = 0\<rparr>"

definition FileEntry_zero :: FileEntry where
  "FileEntry_zero = \<lparr>Number = 0, Length = 0, Type = 0, Data = []\<rparr>"

text \<open>
  A \<open>net.Conn\<close>: its local address, the bytes the server has been sent, the outcomes of the
  coming \<open>Write\<close> calls (\<open>None\<close>: the whole buffer is written; \<open>Some (n, e)\<close>: \<open>n\<close> bytes are
  written and the call fails with \<open>e\<close>; past the end of the script every write succeeds),
  the bytes the server delivers before it closes, and whether \<open>Close\<close> was called.
\<close>

record Conn =
  localAddr :: string
  sent :: "byte list"
  wscript :: "(nat \<times> error) option list"
  inbound :: "byte list"
  closed :: bool

text \<open>
  The client. \<open>conn\<close> is \<open>None\<close> for the nil interface value. \<open>processEntry\<close> is the handle
  of the registered callback in a table of callbacks, \<open>relayServer\<close> the handle of the relay
  server, if any.
\<close>

record StreamClient =
  server :: string
  streamType :: StreamType
  conn :: "Conn option"
  ID :: string
  started :: bool
  connected :: bool
  streaming :: bool
  fromStream :: uint64
  totalEntries :: uint64
  results :: "ResultEntry list"
  headers :: "HeaderEntry list"
  entries :: "FileEntry list"
  entryRsp :: "FileEntry list"
  nextEntry :: uint64
  processEntry :: nat
  relayServer :: "nat option"

text \<open>
  The constants and the codec the file uses and does not declare: the six command
  opcodes, the OK result code, the entry type that says "not found", the four packet type
  tags, the sizes of the fixed parts of the records and the three decoders. They are
  parameters of the model.
\<close>

record Protocol =
  CmdStart :: Command
  CmdStop :: Command
  CmdHeader :: Command
  CmdStartBookmark :: Command
  CmdEntry :: Command
  CmdBookmark :: Command
  CmdErrOK :: uint32
  EntryTypeNotFound :: uint32
  PtResult :: byte
  PtDataRsp :: byte
  PtHeader :: byte
  PtData :: byte
  FixedSizeFileEntry :: nat
  FixedSizeResultEntry :: nat
  headerSize :: nat
  DecodeBinaryToFileEntry :: "byte list \<Rightarrow> error + FileEntry"
  decodeBinaryToHeaderEntry :: "byte list \<Rightarrow> error + HeaderEntry"
  DecodeBinaryToResultEntry :: "byte list \<Rightarrow> error + ResultEntry"

text \<open>
  A Go \<open>switch\<close> over constants does not compile when two cases are equal, so the opcodes
  the two switches of \<open>execCommand\<close> list are pairwise different, and so are the packet
  tags of the switch of \<open>readEntries\<close>.
\<close>

definition distinct_consts :: "Protocol \<Rightarrow> bool" where
  "distinct_consts p =
     (distinct [CmdStart p, CmdStartBookmark p, CmdStop p, CmdHeader p, CmdEntry p, CmdBookmark p]
      \<and> distinct [PtResult p, PtDataRsp p, PtHeader p, PtData p])"

text \<open>
  Modelled from the spec: \<open>Command.IsACommand\<close> is declared outside this file; the spec
  says that the engine "validates \<open>cmd\<close> is one of the six known commands".
\<close>

definition IsACommand :: "Protocol \<Rightarrow> Command \<Rightarrow> bool" where
  "IsACommand p cmd =
     (cmd \<in> set [CmdStart p, CmdStop p, CmdHeader p, CmdStartBookmark p, CmdEntry p, CmdBookmark p])"

definition resultsBuffer :: nat where "resultsBuffer = 32"
definition headersBuffer :: nat where "headersBuffer = 32"
definition entriesBuffer :: nat where "entriesBuffer = 128"
definition entryRspBuffer :: nat where "entryRspBuffer = 32"

text \<open>
  What a call does: it returns a value, it panics (a nil dereference or a slice out of
  range, which ends the process), it blocks on a channel in the state given, or it is
  still retrying when the script of dials ends.
\<close>

datatype ('s, 'a) outcome = Returns 'a | Panics | Blocks 's | Retrying

fun bind :: "('s, 'a) outcome \<Rightarrow> ('a \<Rightarrow> ('s, 'b) outcome) \<Rightarrow> ('s, 'b) outcome" where
  "bind (Returns x) f = f x"
| "bind Panics f = Panics"
| "bind (Blocks s) f = Blocks s"
| "bind Retrying f = Retrying"

subsection \<open>Writing to the connection\<close>

text \<open>\<open>binary.BigEndian.PutUint64\<close> and \<open>PutUint32\<close>: the most significant byte first.\<close>

definition PutUint64 :: "uint64 \<Rightarrow> byte list" where
  "PutUint64 v =
     [ucast (drop_bit 56 v), ucast (drop_bit 48 v), ucast (drop_bit 40 v), ucast (drop_bit 32 v),
      ucast (drop_bit 24 v), ucast (drop_bit 16 v), ucast (drop_bit 8 v), ucast v]"

definition PutUint32 :: "uint32 \<Rightarrow> byte list" where
  "PutUint32 v = [ucast (drop_bit 24 v), ucast (drop_bit 16 v), ucast (drop_bit 8 v), ucast v]"

text \<open>\<open>conn.Write(buffer)\<close> on a connection that is not nil.\<close>

definition Write :: "Conn \<Rightarrow> byte list \<Rightarrow> Conn \<times> error option" where
  "Write k buffer =
     (if closed k then (k, Some ErrClosed)
      else case wscript k of
        [] \<Rightarrow> (k\<lparr>sent := sent k @ buffer\<rparr>, None)
      | None # ws \<Rightarrow> (k\<lparr>sent := sent k @ buffer, wscript := ws\<rparr>, None)
      | Some (n, e) # ws \<Rightarrow> (k\<lparr>sent := sent k @ take n buffer, wscript := ws\<rparr>, Some e))"

text \<open>
  \<open>writeFullBytes\<close>: the write, or \<open>ErrNilConnection\<close> for a nil connection; then, when
  there is an error, the log line evaluates \<open>conn.RemoteAddr().String()\<close> before the
  error is returned, and a method call on the nil interface value panics. The result is
  the connection after the call and the error returned.
\<close>

definition writeFullBytes :: "byte list \<Rightarrow> Conn option \<Rightarrow> ('s, Conn option \<times> error option) outcome" where
  "writeFullBytes buffer cn =
     (let (cn', err) = (case cn of
                          Some k \<Rightarrow> (let (k', e) = Write k buffer in (Some k', e))
                        | None \<Rightarrow> (None, Some ErrNilConnection))
      in if err \<noteq> None
         then (case cn of None \<Rightarrow> Panics | Some k \<Rightarrow> Returns (cn', err))
         else Returns (cn', None))"

text \<open>\<open>writeFullUint64\<close> and \<open>writeFullUint32\<close> differ only in the buffer they fill.\<close>

definition writeFullUint64 :: "uint64 \<Rightarrow> Conn option \<Rightarrow> ('s, Conn option \<times> error option) outcome" where
  "writeFullUint64 v cn =
     (let buffer = PutUint64 v;
          (cn', err) = (case cn of
                          Some k \<Rightarrow> (let (k', e) = Write k buffer in (Some k', e))
                        | None \<Rightarrow> (None, Some ErrNilConnection))
      in if err \<noteq> None
         then (case cn of None \<Rightarrow> Panics | Some k \<Rightarrow> Returns (cn', err))
         else Returns (cn', None))"

definition writeFullUint32 :: "uint32 \<Rightarrow> Conn option \<Rightarrow> ('s, Conn option \<times> error option) outcome" where
  "writeFullUint32 v cn =
     (let buffer = PutUint32 v;
          (cn', err) = (case cn of
                          Some k \<Rightarrow> (let (k', e) = Write k buffer in (Some k', e))
                        | None \<Rightarrow> (None, Some ErrNilConnection))
      in if err \<noteq> None
         then (case cn of None \<Rightarrow> Panics | Some k \<Rightarrow> Returns (cn', err))
         else Returns (cn', None))"

subsection \<open>Commands\<close>

type_synonym cmd_result = "StreamClient \<times> HeaderEntry \<times> FileEntry \<times> error option"

text \<open>
  One write of \<open>execCommand\<close> with its \<open>if err != nil { return header, entry, err }\<close>:
  the client's connection is the one the write leaves, and the command goes on only
  when the write returned no error.
\<close>

definition send :: "StreamClient \<Rightarrow> (Conn option \<Rightarrow> (StreamClient, Conn option \<times> error option) outcome)
    \<Rightarrow> (StreamClient \<Rightarrow> (StreamClient, cmd_result) outcome) \<Rightarrow> (StreamClient, cmd_result) outcome" where
  "send c w cont =
     bind (w (conn c)) (\<lambda>(cn', err).
       case err of
         Some e \<Rightarrow> Returns (c\<lparr>conn := cn'\<rparr>, HeaderEntry_zero, FileEntry_zero, Some e)
       | None \<Rightarrow> cont (c\<lparr>conn := cn'\<rparr>))"

text \<open>
  \<open>getResult\<close>, \<open>getHeader\<close> and \<open>getEntry\<close> receive from the channels \<open>results\<close>,
  \<open>headers\<close> and \<open>entryRsp\<close>.
\<close>

definition getResult :: "StreamClient \<Rightarrow> (StreamClient, ResultEntry \<times> StreamClient) outcome" where
  "getResult c = (case results c of [] \<Rightarrow> Blocks c | r # rs \<Rightarrow> Returns (r, c\<lparr>results := rs\<rparr>))"

definition getHeader :: "StreamClient \<Rightarrow> (StreamClient, HeaderEntry \<times> StreamClient) outcome" where
  "getHeader c = (case headers c of [] \<Rightarrow> Blocks c | h # hs \<Rightarrow> Returns (h, c\<lparr>headers := hs\<rparr>))"

definition getEntry :: "StreamClient \<Rightarrow> (StreamClient, FileEntry \<times> StreamClient) outcome" where
  "getEntry c = (case entryRsp c of [] \<Rightarrow> Blocks c | e # es \<Rightarrow> Returns (e, c\<lparr>entryRsp := es\<rparr>))"

text \<open>The second switch of \<open>execCommand\<close>: the data response and the streaming flag.\<close>

definition execCommand_response :: "Protocol \<Rightarrow> Command \<Rightarrow> uint64 \<Rightarrow> StreamClient
    \<Rightarrow> (StreamClient, cmd_result) outcome" where
  "execCommand_response p cmd fromEntry c =
     (if cmd = CmdStart p then
        Returns (c\<lparr>streaming := True, fromStream := fromEntry\<rparr>, HeaderEntry_zero, FileEntry_zero, None)
      else if cmd = CmdStartBookmark p then
        Returns (c\<lparr>streaming := True\<rparr>, HeaderEntry_zero, FileEntry_zero, None)
      else if cmd = CmdStop p then
        Returns (c\<lparr>streaming := False\<rparr>, HeaderEntry_zero, FileEntry_zero, None)
      else if cmd = CmdHeader p then
        bind (getHeader c) (\<lambda>(h, c).
          Returns (c\<lparr>totalEntries := TotalEntries h\<rparr>, h, FileEntry_zero, None))
      else if cmd = CmdEntry p then
        bind (getEntry c) (\<lambda>(e, c).
          if Type e = EntryTypeNotFound p
          then Returns (c, HeaderEntry_zero, FileEntry_zero, Some ErrEntryNotFound)
          else Returns (c, HeaderEntry_zero, e, None))
      else if cmd = CmdBookmark p then
        bind (getEntry c) (\<lambda>(e, c).
          if Type e = EntryTypeNotFound p
          then Returns (c, HeaderEntry_zero, FileEntry_zero, Some ErrBookmarkNotFound)
          else Returns (c, HeaderEntry_zero, e, None))
      else Returns (c, HeaderEntry_zero, FileEntry_zero, None))"

text \<open>The command result, awaited unless it is deferred, and then the second switch.\<close>

definition execCommand_result :: "Protocol \<Rightarrow> Command \<Rightarrow> bool \<Rightarrow> uint64 \<Rightarrow> StreamClient
    \<Rightarrow> (StreamClient, cmd_result) outcome" where
  "execCommand_result p cmd deferredResult fromEntry c =
     (if \<not> deferredResult then
        bind (getResult c) (\<lambda>(r, c).
          if errorNum r \<noteq> CmdErrOK p
          then Returns (c, HeaderEntry_zero, FileEntry_zero, Some ErrResultCommandError)
          else execCommand_response p cmd fromEntry c)
      else execCommand_response p cmd fromEntry c)"

text \<open>
  \<open>execCommand\<close>: the two checks, the opcode, the stream type, the parameters of the
  command (the first switch), then the result and the response.
\<close>

definition execCommand :: "Protocol \<Rightarrow> StreamClient \<Rightarrow> Command \<Rightarrow> bool \<Rightarrow> uint64 \<Rightarrow> byte list
    \<Rightarrow> (StreamClient, cmd_result) outcome" where
  "execCommand p c cmd deferredResult fromEntry fromBookmark =
     (if \<not> started c then
        Returns (c, HeaderEntry_zero, FileEntry_zero, Some ErrExecCommandNotAllowed)
      else if \<not> IsACommand p cmd then
        Returns (c, HeaderEntry_zero, FileEntry_zero, Some ErrInvalidCommand)
      else
        send c (writeFullUint64 cmd) (\<lambda>c.
        send c (writeFullUint64 (streamType c)) (\<lambda>c.
          if cmd = CmdStart p then
            send c (writeFullUint64 fromEntry) (execCommand_result p cmd deferredResult fromEntry)
          else if cmd = CmdStartBookmark p then
            send c (writeFullUint32 (word_of_nat (length fromBookmark))) (\<lambda>c.
            send c (writeFullBytes fromBookmark) (execCommand_result p cmd deferredResult fromEntry))
          else if cmd = CmdEntry p then
            send c (writeFullUint64 fromEntry) (execCommand_result p cmd deferredResult fromEntry)
          else if cmd = CmdBookmark p then
            send c (writeFullUint32 (word_of_nat (length fromBookmark))) (\<lambda>c.
            send c (writeFullBytes fromBookmark) (execCommand_result p cmd deferredResult fromEntry))
          else execCommand_result p cmd deferredResult fromEntry c)))"

text \<open>
  The buffers a command writes, as the protocol lists them: the opcode and the stream type
  as 8 bytes each, then the entry number as 8 bytes for Start and Entry, the length of the
  bookmark as 4 bytes and the bookmark for StartBookmark and Bookmark, nothing for Stop
  and Header. The length is converted with \<open>uint32(len(fromBookmark))\<close>.
\<close>

definition command_frames :: "Protocol \<Rightarrow> Command \<Rightarrow> StreamType \<Rightarrow> uint64 \<Rightarrow> byte list \<Rightarrow> byte list list" where
  "command_frames p cmd st fromEntry fromBookmark =
     [PutUint64 cmd, PutUint64 st] @
     (if cmd = CmdStart p \<or> cmd = CmdEntry p then [PutUint64 fromEntry]
      else if cmd = CmdStartBookmark p \<or> cmd = CmdBookmark p
           then [PutUint32 (word_of_nat (length fromBookmark)), fromBookmark]
      else [])"

text \<open>Writing buffers one after the other until a write fails.\<close>

fun write_all :: "Conn \<Rightarrow> byte list list \<Rightarrow> Conn \<times> error option" where
  "write_all k [] = (k, None)"
| "write_all k (b # bs) =
     (case Write k b of (k', Some e) \<Rightarrow> (k', Some e) | (k', None) \<Rightarrow> write_all k' bs)"

subsection \<open>Connecting\<close>

text \<open>
  \<open>NewClient\<close>: nothing is started or connected, the channels are empty, and the
  default callback \<open>PrintReceivedEntry\<close>, which has the handle 0, is registered.
\<close>

definition NewClient :: "string \<Rightarrow> StreamType \<Rightarrow> StreamClient" where
  "NewClient srv st =
     \<lparr>server = srv, streamType = st, conn = None, ID = [], started = False, connected = False,
      streaming = False, fromStream = 0, totalEntries = 0, results = [], headers = [],
      entries = [], entryRsp = [], nextEntry = 0, processEntry = 0, relayServer = None\<rparr>"

text \<open>\<open>closeConnection\<close>: \<open>Close\<close> on a connection that is not nil; \<open>connected\<close> is cleared.\<close>

definition closeConnection :: "StreamClient \<Rightarrow> StreamClient" where
  "closeConnection c =
     c\<lparr>conn := (case conn c of None \<Rightarrow> None | Some k \<Rightarrow> Some (k\<lparr>closed := True\<rparr>)),
       connected := False\<rparr>"

text \<open>
  The network: the outcomes of the coming calls of \<open>net.Dial\<close>, and the number of calls of
  \<open>time.Sleep(defaultTimeout)\<close> made so far.
\<close>

datatype dial = DialOk Conn | DialErr error

type_synonym world = "dial list \<times> nat"

text \<open>
  \<open>connectServer\<close>: the loop \<open>for !c.connected\<close>. A failed dial assigns the nil connection
  it returns, sleeps and goes round again. A dial that succeeds sets \<open>connected\<close> and the
  identity; when \<open>streaming\<close> is set it executes Start from \<open>nextEntry\<close> with a deferred
  result, and an error of that command closes the connection, sleeps and goes round again.
  When the script of dials ends the loop is still retrying.
\<close>

fun connectServer :: "Protocol \<Rightarrow> world \<Rightarrow> StreamClient
    \<Rightarrow> (world \<times> StreamClient, bool \<times> world \<times> StreamClient) outcome" where
  "connectServer p ([], sl) c =
     (if connected c then Returns (False, ([], sl), c) else Retrying)"
| "connectServer p (d # ds, sl) c =
     (if connected c then Returns (False, (d # ds, sl), c)
      else case d of
        DialErr err \<Rightarrow> connectServer p (ds, Suc sl) (c\<lparr>conn := None\<rparr>)
      | DialOk k \<Rightarrow>
          (let c = c\<lparr>conn := Some k, connected := True, ID := localAddr k\<rparr> in
           if streaming c then
             (case execCommand p c (CmdStart p) True (nextEntry c) [] of
                Returns (c, header, entry, Some err) \<Rightarrow> connectServer p (ds, Suc sl) (closeConnection c)
              | Returns (c, header, entry, None) \<Rightarrow> Returns (True, (ds, sl), c)
              | Panics \<Rightarrow> Panics
              | Blocks c \<Rightarrow> Blocks ((ds, sl), c)
              | Retrying \<Rightarrow> Retrying)
           else Returns (False, (ds, sl), c)))"

subsection \<open>Reading from the connection\<close>

text \<open>\<open>binary.BigEndian.Uint32\<close> of a slice of four bytes.\<close>

definition Uint32 :: "byte list \<Rightarrow> uint32" where
  "Uint32 b = ucast (b ! 3) OR push_bit 8 (ucast (b ! 2)) OR push_bit 16 (ucast (b ! 1))
                OR push_bit 24 (ucast (b ! 0))"

text \<open>
  \<open>io.ReadFull(conn, buffer)\<close> for a buffer of \<open>n\<close> bytes: the next \<open>n\<close> bytes, or \<open>EOF\<close>
  when the server closed before the first byte and \<open>ErrUnexpectedEOF\<close> when it closed
  after some. With an empty buffer it returns at once and never calls \<open>Read\<close>; otherwise
  \<open>Read\<close> on the nil connection panics.
\<close>

definition ReadFull :: "Conn option \<Rightarrow> nat \<Rightarrow> ('s, Conn option \<times> (error + byte list)) outcome" where
  "ReadFull cn n =
     (if n = 0 then Returns (cn, Inr [])
      else case cn of
        None \<Rightarrow> Panics
      | Some k \<Rightarrow>
          if closed k then Returns (cn, Inl ErrClosed)
          else if n \<le> length (inbound k)
            then Returns (Some (k\<lparr>inbound := drop n (inbound k)\<rparr>), Inr (take n (inbound k)))
          else Returns (Some (k\<lparr>inbound := []\<rparr>),
                        Inl (if inbound k = [] then EOF else ErrUnexpectedEOF)))"

definition readContent :: "StreamClient \<Rightarrow> nat
    \<Rightarrow> (StreamClient, StreamClient \<times> (error + byte list)) outcome" where
  "readContent c n = bind (ReadFull (conn c) n) (\<lambda>(cn, r). Returns (c\<lparr>conn := cn\<rparr>, r))"

text \<open>
  \<open>readDataEntry\<close>: the rest of the fixed part, the length at \<open>buffer[1:5]\<close>, the variable
  part, the decoder. The slice expression panics when the buffer is shorter than five
  bytes.
\<close>

definition readDataEntry :: "Protocol \<Rightarrow> StreamClient
    \<Rightarrow> (StreamClient, StreamClient \<times> (error + FileEntry)) outcome" where
  "readDataEntry p c =
     bind (readContent c (FixedSizeFileEntry p - 1)) (\<lambda>(c, r).
       case r of
         Inl err \<Rightarrow> Returns (c, Inl err)
       | Inr rest \<Rightarrow>
           (let buffer = PtData p # rest in
            if length buffer < 5 then Panics
            else let len = Uint32 (take 4 (drop 1 buffer)) in
              if unat len < FixedSizeFileEntry p then Returns (c, Inl ErrReadingDataEntry)
              else bind (readContent c (unat len - FixedSizeFileEntry p)) (\<lambda>(c, r).
                case r of
                  Inl err \<Rightarrow> Returns (c, Inl err)
                | Inr bufferAux \<Rightarrow> Returns (c, DecodeBinaryToFileEntry p (buffer @ bufferAux)))))"

definition readHeaderEntry :: "Protocol \<Rightarrow> StreamClient
    \<Rightarrow> (StreamClient, StreamClient \<times> (error + HeaderEntry)) outcome" where
  "readHeaderEntry p c =
     bind (ReadFull (conn c) (headerSize p - 1)) (\<lambda>(cn, r).
       let c = c\<lparr>conn := cn\<rparr> in
       case r of
         Inl err \<Rightarrow> Returns (c, Inl err)
       | Inr rest \<Rightarrow>
           if length rest \<noteq> headerSize p - 1 then Returns (c, Inl ErrGettingHeaderInfo)
           else Returns (c, decodeBinaryToHeaderEntry p (PtHeader p # rest)))"

definition readResultEntry :: "Protocol \<Rightarrow> StreamClient
    \<Rightarrow> (StreamClient, StreamClient \<times> (error + ResultEntry)) outcome" where
  "readResultEntry p c =
     bind (ReadFull (conn c) (FixedSizeResultEntry p - 1)) (\<lambda>(cn, r).
       let c = c\<lparr>conn := cn\<rparr> in
       case r of
         Inl err \<Rightarrow> Returns (c, Inl err)
       | Inr rest \<Rightarrow>
           (let buffer = PtResult p # rest in
            if length buffer < 5 then Panics
            else let len = Uint32 (take 4 (drop 1 buffer)) in
              if unat len < FixedSizeResultEntry p then Returns (c, Inl ErrReadingResultEntry)
              else bind (readContent c (unat len - FixedSizeResultEntry p)) (\<lambda>(c, r).
                case r of
                  Inl err \<Rightarrow> Returns (c, Inl err)
                | Inr bufferAux \<Rightarrow> Returns (c, DecodeBinaryToResultEntry p (buffer @ bufferAux)))))"

subsection \<open>The dispatcher\<close>

text \<open>A call on the client made by the dispatcher, which also holds the network.\<close>

fun lift :: "world \<Rightarrow> (StreamClient, 'a) outcome \<Rightarrow> (world \<times> StreamClient, 'a) outcome" where
  "lift w (Returns x) = Returns x"
| "lift w Panics = Panics"
| "lift w (Blocks c) = Blocks (w, c)"
| "lift w Retrying = Retrying"

text \<open>
  One iteration of the loop of \<open>readEntries\<close>, from \<open>connectServer\<close> to the end of the
  switch or to a \<open>continue\<close>. A send on a channel whose buffer is full blocks.
\<close>

definition readEntries_iter :: "Protocol \<Rightarrow> world \<Rightarrow> StreamClient
    \<Rightarrow> (world \<times> StreamClient, world \<times> StreamClient) outcome" where
  "readEntries_iter p w c =
     bind (connectServer p w c) (\<lambda>(deferredResult, w, c).
     bind (lift w (readContent c 1)) (\<lambda>(c, r).
       case r of
         Inl err \<Rightarrow> Returns (w, closeConnection c)
       | Inr [] \<Rightarrow> Panics
       | Inr (t # ts) \<Rightarrow>
           if t = PtResult p then
             bind (lift w (readResultEntry p c)) (\<lambda>(c, r).
               case r of
                 Inl err \<Rightarrow> Returns (w, closeConnection c)
               | Inr r \<Rightarrow>
                   if resultsBuffer \<le> length (results c) then Blocks (w, c)
                   else let c = c\<lparr>results := results c @ [r]\<rparr> in
                     if deferredResult then
                       bind (lift w (getResult c)) (\<lambda>(r, c).
                         if errorNum r \<noteq> CmdErrOK p
                         then Returns ((fst w, Suc (snd w)), closeConnection c)
                         else Returns (w, c))
                     else Returns (w, c))
           else if t = PtDataRsp p then
             bind (lift w (readDataEntry p c)) (\<lambda>(c, r).
               case r of
                 Inl err \<Rightarrow> Returns (w, closeConnection c)
               | Inr r \<Rightarrow>
                   if entryRspBuffer \<le> length (entryRsp c) then Blocks (w, c)
                   else Returns (w, c\<lparr>entryRsp := entryRsp c @ [r]\<rparr>))
           else if t = PtHeader p then
             bind (lift w (readHeaderEntry p c)) (\<lambda>(c, r).
               case r of
                 Inl err \<Rightarrow> Returns (w, closeConnection c)
               | Inr h \<Rightarrow>
                   if headersBuffer \<le> length (headers c) then Blocks (w, c)
                   else Returns (w, c\<lparr>headers := headers c @ [h]\<rparr>))
           else if t = PtData p then
             bind (lift w (readDataEntry p c)) (\<lambda>(c, r).
               case r of
                 Inl err \<Rightarrow> Returns (w, closeConnection c)
               | Inr e \<Rightarrow>
                   if entriesBuffer \<le> length (entries c) then Blocks (w, c)
                   else Returns (w, c\<lparr>entries := entries c @ [e]\<rparr>))
           else Returns (w, c)))"

text \<open>The first \<open>n\<close> iterations of \<open>readEntries\<close>; the loop itself has no exit.\<close>

fun readEntries :: "Protocol \<Rightarrow> nat \<Rightarrow> world \<Rightarrow> StreamClient
    \<Rightarrow> (world \<times> StreamClient, world \<times> StreamClient) outcome" where
  "readEntries p 0 w c = Returns (w, c)"
| "readEntries p (Suc n) w c = bind (readEntries_iter p w c) (\<lambda>(w, c). readEntries p n w c)"

subsection \<open>The streaming consumer\<close>

text \<open>
  A callback gets the entry, the client and the relay server; it may change the client
  through the pointer, and returns its error. The callbacks are kept in a table, and the
  client holds the handle of the registered one.
\<close>

type_synonym ProcessEntryFunc = "FileEntry \<Rightarrow> StreamClient \<Rightarrow> nat option \<Rightarrow> StreamClient \<times> error option"

text \<open>\<open>PrintReceivedEntry\<close>, the default callback: it logs and returns nil.\<close>

definition PrintReceivedEntry :: ProcessEntryFunc where
  "PrintReceivedEntry e c s = (c, None)"

text \<open>
  A call of a callback, as the consumer makes it: the handle of the callback, the three
  arguments (the client as it is when the callback receives it), and the error returned.
\<close>

record Call =
  cb :: nat
  arg_entry :: FileEntry
  arg_client :: StreamClient
  arg_relay :: "nat option"
  ret :: "error option"

text \<open>
  \<open>getStreaming\<close>, on the entries the channel \<open>entries\<close> delivers, in order: the cursor is
  set, then the registered callback is called; its error ends the loop and is returned.
  When the channel is empty the receive blocks. The result is the calls made and the
  outcome, which for a return is the client and the error.
\<close>

fun getStreaming_loop :: "(nat \<Rightarrow> ProcessEntryFunc) \<Rightarrow> StreamClient \<Rightarrow> FileEntry list
    \<Rightarrow> Call list \<times> (StreamClient, StreamClient \<times> error) outcome" where
  "getStreaming_loop cbs c [] = ([], Blocks (c\<lparr>entries := []\<rparr>))"
| "getStreaming_loop cbs c (e # es) =
     (let c = c\<lparr>entries := es, nextEntry := Number e + 1\<rparr>;
          (c', err) = cbs (processEntry c) e c (relayServer c);
          call = \<lparr>cb = processEntry c, arg_entry = e, arg_client = c, arg_relay = relayServer c,
                  ret = err\<rparr>
      in case err of
           Some x \<Rightarrow> ([call], Returns (c', x))
         | None \<Rightarrow> (let (calls, out) = getStreaming_loop cbs c' es in (call # calls, out)))"

definition getStreaming :: "(nat \<Rightarrow> ProcessEntryFunc) \<Rightarrow> StreamClient
    \<Rightarrow> Call list \<times> (StreamClient, StreamClient \<times> error) outcome" where
  "getStreaming cbs c = getStreaming_loop cbs c (entries c)"

subsection \<open>An instance\<close>

text \<open>
  Values for the parameters, a connection without faults, a client that is started and
  connected, and a table of callbacks: the handle 0 is the default callback, and the
  callback with another handle \<open>h\<close> fails with \<open>ErrOther h\<close>. The closed instances of the
  theorems are stated on them.
\<close>

definition proto0 :: Protocol where
  "proto0 =
     \<lparr>CmdStart = 1, CmdStop = 2, CmdHeader = 3, CmdStartBookmark = 4, CmdEntry = 5, CmdBookmark = 6,
      CmdErrOK = 0, EntryTypeNotFound = 4294967295,
      PtResult = 255, PtDataRsp = 254, PtHeader = 1, PtData = 2,
      FixedSizeFileEntry = 17, FixedSizeResultEntry = 9, headerSize = 38,
      DecodeBinaryToFileEntry = (\<lambda>b. Inl (ErrOther 1)),
      decodeBinaryToHeaderEntry = (\<lambda>b. Inl (ErrOther 2)),
      DecodeBinaryToResultEntry =
        (\<lambda>b. if length b < 9 then Inl (ErrOther 3)
             else Inr \<lparr>errorNum = Uint32 (take 4 (drop 5 b)), errorStr = drop 9 b\<rparr>)\<rparr>"

definition conn0 :: Conn where
  "conn0 = \<lparr>localAddr = ''127.0.0.1:40000'', sent = [], wscript = [], inbound = [], closed = False\<rparr>"

definition client0 :: StreamClient where
  "client0 = (NewClient ''127.0.0.1:6900'' 1)\<lparr>conn := Some conn0, ID := ''127.0.0.1:40000'',
                started := True, connected := True\<rparr>"

definition cbs0 :: "nat \<Rightarrow> ProcessEntryFunc" where
  "cbs0 h = (if h = 0 then PrintReceivedEntry else (\<lambda>e c s. (c, Some (ErrOther h))))"

text \<open>
  A client that was streaming when its connection went down, with the cursor at 9, and a
  connection on which the server answers with a result packet of code 1.
\<close>

definition client1 :: StreamClient where
  "client1 = (NewClient ''127.0.0.1:6900'' 1)\<lparr>started := True, streaming := True, nextEntry := 9\<rparr>"

definition conn1 :: Conn where
  "conn1 = conn0\<lparr>inbound := [255, 0, 0, 0, 9, 0, 0, 0, 1]\<rparr>"

section \<open>Lemmas\<close>

subsection \<open>Facts about the writes\<close>

lemma distinct_cmds:
  assumes "distinct_consts p"
  shows "CmdStart p \<noteq> CmdStartBookmark p" "CmdStart p \<noteq> CmdStop p" "CmdStart p \<noteq> CmdHeader p"
    "CmdStart p \<noteq> CmdEntry p" "CmdStart p \<noteq> CmdBookmark p"
    "CmdStartBookmark p \<noteq> CmdStart p" "CmdStartBookmark p \<noteq> CmdStop p"
    "CmdStartBookmark p \<noteq> CmdHeader p" "CmdStartBookmark p \<noteq> CmdEntry p"
    "CmdStartBookmark p \<noteq> CmdBookmark p"
    "CmdStop p \<noteq> CmdStart p" "CmdStop p \<noteq> CmdStartBookmark p" "CmdStop p \<noteq> CmdHeader p"
    "CmdStop p \<noteq> CmdEntry p" "CmdStop p \<noteq> CmdBookmark p"
    "CmdHeader p \<noteq> CmdStart p" "CmdHeader p \<noteq> CmdStartBookmark p" "CmdHeader p \<noteq> CmdStop p"
    "CmdHeader p \<noteq> CmdEntry p" "CmdHeader p \<noteq> CmdBookmark p"
    "CmdEntry p \<noteq> CmdStart p" "CmdEntry p \<noteq> CmdStartBookmark p" "CmdEntry p \<noteq> CmdStop p"
    "CmdEntry p \<noteq> CmdHeader p" "CmdEntry p \<noteq> CmdBookmark p"
    "CmdBookmark p \<noteq> CmdStart p" "CmdBookmark p \<noteq> CmdStartBookmark p" "CmdBookmark p \<noteq> CmdStop p"
    "CmdBookmark p \<noteq> CmdHeader p" "CmdBookmark p \<noteq> CmdEntry p"
  using assms by (auto simp: distinct_consts_def)

lemma distinct_proto0: "distinct_consts proto0"
  by (simp add: distinct_consts_def proto0_def)

lemma length_PutUint64: "length (PutUint64 v) = 8"
  by (simp add: PutUint64_def)

lemma length_PutUint32: "length (PutUint32 v) = 4"
  by (simp add: PutUint32_def)

text \<open>\<open>Uint32\<close> reads back what \<open>PutUint32\<close> wrote: both are big-endian.\<close>

lemma Uint32_PutUint32: "Uint32 (PutUint32 v) = v"
  unfolding Uint32_def PutUint32_def
proof (rule bit_word_eqI)
  fix n
  assume "n < LENGTH(32)"
  then have n: "n < 32" by simp
  consider "n < 8" | "8 \<le> n" "n < 16" | "16 \<le> n" "n < 24" | "24 \<le> n" "n < 32"
    using n by linarith
  then show "bit (ucast ([ucast (drop_bit 24 v), ucast (drop_bit 16 v), ucast (drop_bit 8 v), ucast v :: byte] ! 3) OR
          push_bit 8 (ucast ([ucast (drop_bit 24 v), ucast (drop_bit 16 v), ucast (drop_bit 8 v), ucast v :: byte] ! 2)) OR
          push_bit 16 (ucast ([ucast (drop_bit 24 v), ucast (drop_bit 16 v), ucast (drop_bit 8 v), ucast v :: byte] ! 1)) OR
          push_bit 24 (ucast ([ucast (drop_bit 24 v), ucast (drop_bit 16 v), ucast (drop_bit 8 v), ucast v :: byte] ! 0)) :: uint32) n
        = bit v n"
    by cases (auto simp: bit_simps)
qed

lemma Write_None_sent: "Write k b = (k', None) \<Longrightarrow> sent k' = sent k @ b"
  by (auto simp: Write_def split: if_splits list.splits option.splits)

lemma Write_Some_sent: "Write k b = (k', Some e) \<Longrightarrow> \<exists>n. sent k' = sent k @ take n b"
proof (cases "closed k")
  case True
  assume "Write k b = (k', Some e)"
  with True have "sent k' = sent k @ take 0 b" by (auto simp: Write_def)
  then show ?thesis by blast
next
  case False
  assume "Write k b = (k', Some e)"
  with False show ?thesis
    by (auto simp: Write_def split: list.splits option.splits)
qed

lemma write_all_sent: "write_all k fs = (k', None) \<Longrightarrow> sent k' = sent k @ concat fs"
  by (induction fs arbitrary: k) (auto split: prod.splits option.splits dest: Write_None_sent)

lemma write_all_fails:
  "write_all k fs = (k', Some e) \<Longrightarrow>
   \<exists>i n. i < length fs \<and> sent k' = sent k @ concat (take i fs) @ take n (fs ! i)"
proof (induction fs arbitrary: k)
  case Nil
  then show ?case by simp
next
  case (Cons b bs)
  obtain k1 r where w: "Write k b = (k1, r)" by (cases "Write k b")
  show ?case
  proof (cases r)
    case None
    with w Cons.prems have "write_all k1 bs = (k', Some e)" by simp
    from Cons.IH [OF this] obtain i n where
      "i < length bs" "sent k' = sent k1 @ concat (take i bs) @ take n (bs ! i)" by blast
    moreover from w None have "sent k1 = sent k @ b" by (simp add: Write_None_sent)
    ultimately have "Suc i < length (b # bs) \<and>
        sent k' = sent k @ concat (take (Suc i) (b # bs)) @ take n ((b # bs) ! Suc i)" by simp
    then show ?thesis by blast
  next
    case (Some e')
    with w Cons.prems have "k' = k1" by simp
    with w Some obtain n where "sent k' = sent k @ take n b" using Write_Some_sent by blast
    then have "0 < length (b # bs) \<and>
        sent k' = sent k @ concat (take 0 (b # bs)) @ take n ((b # bs) ! 0)" by simp
    then show ?thesis by blast
  qed
qed

lemma send_Some:
  "conn c = Some k \<Longrightarrow>
   send c (writeFullUint64 v) cont =
     (case Write k (PutUint64 v) of
        (k', Some e) \<Rightarrow> Returns (c\<lparr>conn := Some k'\<rparr>, HeaderEntry_zero, FileEntry_zero, Some e)
      | (k', None) \<Rightarrow> cont (c\<lparr>conn := Some k'\<rparr>))"
  "conn c = Some k \<Longrightarrow>
   send c (writeFullUint32 w) cont =
     (case Write k (PutUint32 w) of
        (k', Some e) \<Rightarrow> Returns (c\<lparr>conn := Some k'\<rparr>, HeaderEntry_zero, FileEntry_zero, Some e)
      | (k', None) \<Rightarrow> cont (c\<lparr>conn := Some k'\<rparr>))"
  "conn c = Some k \<Longrightarrow>
   send c (writeFullBytes b) cont =
     (case Write k b of
        (k', Some e) \<Rightarrow> Returns (c\<lparr>conn := Some k'\<rparr>, HeaderEntry_zero, FileEntry_zero, Some e)
      | (k', None) \<Rightarrow> cont (c\<lparr>conn := Some k'\<rparr>))"
  by (auto simp: send_def writeFullUint64_def writeFullUint32_def writeFullBytes_def
           split: prod.splits option.splits)

lemma write_all_step:
  "(case write_all k (b # bs) of (k', Some e) \<Rightarrow> F k' e | (k', None) \<Rightarrow> G k') =
   (case Write k b of
      (k1, Some e) \<Rightarrow> F k1 e
    | (k1, None) \<Rightarrow> (case write_all k1 bs of (k', Some e) \<Rightarrow> F k' e | (k', None) \<Rightarrow> G k'))"
  by (simp split: prod.splits option.splits)

text \<open>
  The first half of \<open>execCommand\<close> writes the buffers of the command in order and stops
  at the first write that fails.
\<close>

lemma execCommand_unfold:
  assumes "distinct_consts p" "started c" "IsACommand p cmd" "conn c = Some k"
  shows "execCommand p c cmd d fromEntry fromBookmark =
    (case write_all k (command_frames p cmd (streamType c) fromEntry fromBookmark) of
       (k', Some e) \<Rightarrow> Returns (c\<lparr>conn := Some k'\<rparr>, HeaderEntry_zero, FileEntry_zero, Some e)
     | (k', None) \<Rightarrow> execCommand_result p cmd d fromEntry (c\<lparr>conn := Some k'\<rparr>))"
proof -
  note neq = distinct_cmds [OF assms(1)]
  from assms(3) consider "cmd = CmdStart p" | "cmd = CmdStop p" | "cmd = CmdHeader p"
    | "cmd = CmdStartBookmark p" | "cmd = CmdEntry p" | "cmd = CmdBookmark p"
    by (auto simp: IsACommand_def)
  then show ?thesis
    using assms(2,4)
    by cases
      (simp_all add: execCommand_def send_Some command_frames_def IsACommand_def neq
         write_all_step del: write_all.simps(2) cong: option.case_cong prod.case_cong)
qed

lemma execCommand_sent_ok:
  assumes "distinct_consts p" "started c" "IsACommand p cmd" "conn c = Some k"
    and "write_all k (command_frames p cmd (streamType c) fromEntry fromBookmark) = (k', None)"
  shows "execCommand p c cmd d fromEntry fromBookmark
           = execCommand_result p cmd d fromEntry (c\<lparr>conn := Some k'\<rparr>)"
  using execCommand_unfold [OF assms(1-4), of d fromEntry fromBookmark] assms(5) by simp

lemma write_all_conn0:
  "write_all conn0 (command_frames proto0 1 1 7 [])
     = (conn0\<lparr>sent := [0,0,0,0,0,0,0,1, 0,0,0,0,0,0,0,1, 0,0,0,0,0,0,0,7]\<rparr>, None)"
  "write_all conn0 (command_frames proto0 2 1 0 [])
     = (conn0\<lparr>sent := [0,0,0,0,0,0,0,2, 0,0,0,0,0,0,0,1]\<rparr>, None)"
  "write_all conn0 (command_frames proto0 4 1 0 [1, 2, 3])
     = (conn0\<lparr>sent := [0,0,0,0,0,0,0,4, 0,0,0,0,0,0,0,1, 0,0,0,3, 1,2,3]\<rparr>, None)"
  "write_all conn0 (command_frames proto0 5 1 7 [])
     = (conn0\<lparr>sent := [0,0,0,0,0,0,0,5, 0,0,0,0,0,0,0,1, 0,0,0,0,0,0,0,7]\<rparr>, None)"
  "write_all (conn0\<lparr>wscript := [None, Some (3, ErrOther 5)]\<rparr>) (command_frames proto0 1 1 7 [])
     = (conn0\<lparr>sent := [0,0,0,0,0,0,0,1, 0,0,0], wscript := []\<rparr>, Some (ErrOther 5))"
  by (simp_all add: command_frames_def proto0_def Write_def conn0_def PutUint64_def PutUint32_def)

lemma client0_simps:
  "started client0" "conn client0 = Some conn0" "streamType client0 = 1"
  "results client0 = []" "headers client0 = []" "entryRsp client0 = []"
  by (simp_all add: client0_def NewClient_def)

subsection \<open>Facts about connecting\<close>

text \<open>\<open>execCommand\<close> changes neither \<open>connected\<close> nor \<open>started\<close>.\<close>

lemma send_connected:
  assumes "send c w cont = Returns (c', x)"
    and "\<And>c1 c2 y. connected c1 = connected c \<Longrightarrow> started c1 = started c \<Longrightarrow> cont c1 = Returns (c2, y)
            \<Longrightarrow> connected c2 = connected c1 \<and> started c2 = started c1"
  shows "connected c' = connected c \<and> started c' = started c"
proof (cases "w (conn c)")
  case (Returns r)
  obtain cn err where r: "r = (cn, err)" by (cases r)
  show ?thesis
  proof (cases err)
    case None
    with Returns r assms(1) have "cont (c\<lparr>conn := cn\<rparr>) = Returns (c', x)"
      by (simp add: send_def)
    from assms(2) [OF _ _ this] show ?thesis by simp
  next
    case (Some e)
    with Returns r assms(1) show ?thesis by (auto simp: send_def)
  qed
qed (use assms(1) in \<open>simp_all add: send_def\<close>)

lemma execCommand_response_connected:
  "execCommand_response p cmd fromEntry c = Returns (c', x)
     \<Longrightarrow> connected c' = connected c \<and> started c' = started c"
  by (auto simp: execCommand_response_def getHeader_def getEntry_def
           split: if_splits list.splits)

lemma execCommand_result_connected:
  "execCommand_result p cmd d fromEntry c = Returns (c', x)
     \<Longrightarrow> connected c' = connected c \<and> started c' = started c"
  by (auto simp: execCommand_result_def getResult_def
           split: if_splits list.splits dest: execCommand_response_connected)

lemma execCommand_connected:
  assumes "execCommand p c cmd d fromEntry fromBookmark = Returns (c', x)"
  shows "connected c' = connected c \<and> started c' = started c"
proof -
  note r = execCommand_result_connected
  have s1: "connected c2 = connected c1 \<and> started c2 = started c1"
    if "send c1 w (execCommand_result p cm d fromEntry) = Returns (c2, y)" for c1 c2 y cm
      and w :: "Conn option \<Rightarrow> (StreamClient, Conn option \<times> error option) outcome"
    using that by (rule send_connected) (rule r)
  have s2: "connected c2 = connected c1 \<and> started c2 = started c1"
    if "send c1 w (\<lambda>c. send c w' (execCommand_result p cm d fromEntry)) = Returns (c2, y)" for c1 c2 y cm
      and w w' :: "Conn option \<Rightarrow> (StreamClient, Conn option \<times> error option) outcome"
    using that by (rule send_connected) (rule s1)
  show ?thesis
  proof (cases "started c \<and> IsACommand p cmd")
    case False
    with assms show ?thesis by (auto simp: execCommand_def split: if_splits)
  next
    case True
    with assms have "send c (writeFullUint64 cmd) (\<lambda>c.
        send c (writeFullUint64 (streamType c)) (\<lambda>c.
          if cmd = CmdStart p then
            send c (writeFullUint64 fromEntry) (execCommand_result p cmd d fromEntry)
          else if cmd = CmdStartBookmark p then
            send c (writeFullUint32 (word_of_nat (length fromBookmark))) (\<lambda>c.
            send c (writeFullBytes fromBookmark) (execCommand_result p cmd d fromEntry))
          else if cmd = CmdEntry p then
            send c (writeFullUint64 fromEntry) (execCommand_result p cmd d fromEntry)
          else if cmd = CmdBookmark p then
            send c (writeFullUint32 (word_of_nat (length fromBookmark))) (\<lambda>c.
            send c (writeFullBytes fromBookmark) (execCommand_result p cmd d fromEntry))
          else execCommand_result p cmd d fromEntry c)) = Returns (c', x)"
      by (simp add: execCommand_def)
    then show ?thesis
    proof (rule send_connected)
      fix c1 c2 y
      assume "send c1 (writeFullUint64 (streamType c1)) (\<lambda>c.
          if cmd = CmdStart p then
            send c (writeFullUint64 fromEntry) (execCommand_result p cmd d fromEntry)
          else if cmd = CmdStartBookmark p then
            send c (writeFullUint32 (word_of_nat (length fromBookmark))) (\<lambda>c.
            send c (writeFullBytes fromBookmark) (execCommand_result p cmd d fromEntry))
          else if cmd = CmdEntry p then
            send c (writeFullUint64 fromEntry) (execCommand_result p cmd d fromEntry)
          else if cmd = CmdBookmark p then
            send c (writeFullUint32 (word_of_nat (length fromBookmark))) (\<lambda>c.
            send c (writeFullBytes fromBookmark) (execCommand_result p cmd d fromEntry))
          else execCommand_result p cmd d fromEntry c) = Returns (c2, y)"
      then show "connected c2 = connected c1 \<and> started c2 = started c1"
      proof (rule send_connected)
        fix c3 c4 z
        assume "(if cmd = CmdStart p then
            send c3 (writeFullUint64 fromEntry) (execCommand_result p cmd d fromEntry)
          else if cmd = CmdStartBookmark p then
            send c3 (writeFullUint32 (word_of_nat (length fromBookmark))) (\<lambda>c.
            send c (writeFullBytes fromBookmark) (execCommand_result p cmd d fromEntry))
          else if cmd = CmdEntry p then
            send c3 (writeFullUint64 fromEntry) (execCommand_result p cmd d fromEntry)
          else if cmd = CmdBookmark p then
            send c3 (writeFullUint32 (word_of_nat (length fromBookmark))) (\<lambda>c.
            send c (writeFullBytes fromBookmark) (execCommand_result p cmd d fromEntry))
          else execCommand_result p cmd d fromEntry c3) = Returns (c4, z)"
        then show "connected c4 = connected c3 \<and> started c4 = started c3"
          by (auto split: if_splits dest: s1 s2 r)
      qed
    qed
  qed
qed

lemma connectServer_connected:
  "connectServer p (ds, sl) c = Returns (b, w', c') \<Longrightarrow> connected c'"
proof (induction ds arbitrary: sl c)
  case Nil
  then show ?case by (auto split: if_splits)
next
  case (Cons d ds)
  show ?case
  proof (cases "connected c")
    case True
    with Cons.prems show ?thesis by auto
  next
    case nc: False
    show ?thesis
    proof (cases d)
      case (DialErr err)
      with nc Cons.prems have "connectServer p (ds, Suc sl) (c\<lparr>conn := None\<rparr>) = Returns (b, w', c')"
        by simp
      then show ?thesis by (rule Cons.IH)
    next
      case (DialOk k)
      let ?c = "c\<lparr>conn := Some k, connected := True, ID := localAddr k\<rparr>"
      show ?thesis
      proof (cases "streaming c")
        case False
        with nc DialOk Cons.prems show ?thesis by auto
      next
        case True
        show ?thesis
        proof (cases "execCommand p ?c (CmdStart p) True (nextEntry ?c) []")
          case (Returns r)
          obtain c2 h e err where r: "r = (c2, h, e, err)" by (cases r)
          show ?thesis
          proof (cases err)
            case None
            from execCommand_connected [OF Returns [unfolded r]] have "connected c2" by simp
            with nc DialOk True Returns r None Cons.prems show ?thesis by (auto simp: Let_def)
          next
            case (Some x)
            have "connectServer p (ds, Suc sl) (closeConnection c2) = Returns (b, w', c')"
              using nc DialOk True Returns r Some Cons.prems by (simp add: Let_def)
            then show ?thesis by (rule Cons.IH)
          qed
        qed (use nc DialOk True Cons.prems in \<open>simp_all add: Let_def\<close>)
      qed
    qed
  qed
qed

lemma connectServer_dial_errors:
  "\<not> connected c \<Longrightarrow>
   connectServer p (map DialErr (e # es) @ ds, sl) c
     = connectServer p (ds, sl + length (e # es)) (c\<lparr>conn := None\<rparr>)"
proof (induction es arbitrary: e sl c)
  case Nil
  then show ?case by simp
next
  case (Cons e' es)
  have "connectServer p (map DialErr (e # e' # es) @ ds, sl) c
      = connectServer p (map DialErr (e' # es) @ ds, Suc sl) (c\<lparr>conn := None\<rparr>)"
    using Cons.prems by simp
  also have "\<dots> = connectServer p (ds, Suc sl + length (e' # es)) (c\<lparr>conn := None, conn := None\<rparr>)"
    using Cons.prems by (intro Cons.IH) simp
  finally show ?case by simp
qed

lemma IsACommand_Start: "IsACommand p (CmdStart p)"
  by (simp add: IsACommand_def)

text \<open>
  \<open>streaming\<close> is set only by a command that passed the check of \<open>started\<close>, so a client
  that is streaming is started.
\<close>

lemma execCommand_streaming_started:
  assumes "execCommand p c cmd d fromEntry fromBookmark = Returns (c', x)"
    and "streaming c \<longrightarrow> started c"
  shows "streaming c' \<longrightarrow> started c'"
proof (cases "started c")
  case True
  with execCommand_connected [OF assms(1)] show ?thesis by simp
next
  case False
  with assms show ?thesis by (auto simp: execCommand_def)
qed

subsection \<open>Facts about the consumer\<close>

lemma getStreaming_loop_last:
  assumes ok: "\<forall>h e c s. snd (cbs h e c s) = None \<and> nextEntry (fst (cbs h e c s)) = nextEntry c"
    and "getStreaming_loop cbs c es = (calls, out)"
  shows "\<exists>c'. out = Blocks c' \<and> length calls = length es
           \<and> nextEntry c' = (if es = [] then nextEntry c else Number (last es) + 1)"
  using assms(2)
proof (induction es arbitrary: c calls out)
  case Nil
  then show ?case by auto
next
  case (Cons e es)
  let ?c = "c\<lparr>entries := es, nextEntry := Number e + 1\<rparr>"
  obtain c1 err where r: "cbs (processEntry ?c) e ?c (relayServer ?c) = (c1, err)"
    by (cases "cbs (processEntry ?c) e ?c (relayServer ?c)")
  have a: "snd (cbs h x d s) = None \<and> nextEntry (fst (cbs h x d s)) = nextEntry d" for h x d s
    using ok by simp
  from a [of "processEntry ?c" e ?c "relayServer ?c"] r
  have err: "err = None" and n1: "nextEntry c1 = Number e + 1"
    by simp_all
  obtain calls' out' where l: "getStreaming_loop cbs c1 es = (calls', out')"
    by (cases "getStreaming_loop cbs c1 es")
  from Cons.IH [OF l] obtain c' where
    ih: "out' = Blocks c'" "length calls' = length es"
      "nextEntry c' = (if es = [] then nextEntry c1 else Number (last es) + 1)"
    by blast
  from r err l Cons.prems have "out = out'" "length calls = Suc (length calls')"
    by (auto simp: Let_def)
  with ih n1 show ?case by auto
qed

lemma consecutive_last:
  assumes "es \<noteq> []" "\<forall>i<length es. Number (es ! i) = k + word_of_nat i"
  shows "Number (last es) + 1 = k + word_of_nat (length es)"
proof -
  from assms(1) have "length es - 1 < length es" by simp
  with assms(2) have "Number (es ! (length es - 1)) = k + word_of_nat (length es - 1)" by blast
  moreover from assms(1) have "last es = es ! (length es - 1)" by (simp add: last_conv_nth)
  moreover from assms(1) have "word_of_nat (length es) = (word_of_nat (length es - 1) + 1 :: uint64)"
    by (cases es) simp_all
  ultimately show ?thesis by simp
qed

section \<open>Properties\<close>

text \<open>
  C1. For the entries the channel delivers to \<open>getStreaming\<close>: the entries are passed to
  the callback in the order of the channel; each call is made with the cursor \<open>nextEntry\<close>
  already set to the number of the entry plus one, on the callback registered in the client
  at that moment, with the entry, the client and its relay server; every call but the last
  returned no error; when \<open>getStreaming\<close> returns, it returns the error of the last call,
  and otherwise every entry was passed, no call failed, and the loop waits for the next
  entry.
\<close>

theorem getStreaming_calls:
  assumes "getStreaming_loop cbs c es = (calls, out)"
  shows "map arg_entry calls = take (length calls) es
       \<and> (\<forall>x \<in> set calls.
             nextEntry (arg_client x) = Number (arg_entry x) + 1
           \<and> cb x = processEntry (arg_client x)
           \<and> arg_relay x = relayServer (arg_client x)
           \<and> ret x = snd (cbs (cb x) (arg_entry x) (arg_client x) (arg_relay x)))
       \<and> (\<forall>x \<in> set (butlast calls). ret x = None)
       \<and> (case out of
             Returns (c', err) \<Rightarrow> calls \<noteq> [] \<and> ret (last calls) = Some err
           | Blocks c' \<Rightarrow> length calls = length es \<and> (\<forall>x \<in> set calls. ret x = None)
           | Panics \<Rightarrow> False
           | Retrying \<Rightarrow> False)"
  using assms
proof (induction es arbitrary: c calls out)
  case Nil
  then show ?case by auto
next
  case (Cons e es)
  let ?c = "c\<lparr>entries := es, nextEntry := Number e + 1\<rparr>"
  obtain c' err where r: "cbs (processEntry ?c) e ?c (relayServer ?c) = (c', err)"
    by (cases "cbs (processEntry ?c) e ?c (relayServer ?c)")
  show ?case
  proof (cases err)
    case (Some x)
    with r Cons.prems show ?thesis by (auto simp: Let_def)
  next
    case None
    obtain calls' out' where l: "getStreaming_loop cbs c' es = (calls', out')"
      by (cases "getStreaming_loop cbs c' es")
    note ih = Cons.IH [OF l]
    from r None l Cons.prems have
      calls: "calls = \<lparr>cb = processEntry ?c, arg_entry = e, arg_client = ?c, arg_relay = relayServer ?c,
                  ret = None\<rparr> # calls'" and out: "out = out'"
      by (auto simp: Let_def)
    show ?thesis
      using ih r None unfolding calls out
      by (auto split: outcome.splits simp: butlast_def)
  qed
qed

theorem getStreaming_calls_witness:
  "getStreaming_loop cbs0 (client0\<lparr>processEntry := 2\<rparr>)
       [FileEntry_zero\<lparr>Number := 5\<rparr>, FileEntry_zero\<lparr>Number := 6\<rparr>]
     = ([\<lparr>cb = 2, arg_entry = FileEntry_zero\<lparr>Number := 5\<rparr>,
          arg_client = client0\<lparr>processEntry := 2, entries := [FileEntry_zero\<lparr>Number := 6\<rparr>],
                         nextEntry := 6\<rparr>,
          arg_relay = None, ret = Some (ErrOther 2)\<rparr>],
        Returns (client0\<lparr>processEntry := 2, entries := [FileEntry_zero\<lparr>Number := 6\<rparr>],
                   nextEntry := 6\<rparr>, ErrOther 2))
   \<and> nextEntry (client0\<lparr>processEntry := 2, entries := [FileEntry_zero\<lparr>Number := 6\<rparr>],
                   nextEntry := 6\<rparr>) = Number (FileEntry_zero\<lparr>Number := 5\<rparr>) + 1"
proof -
  have run: "getStreaming_loop cbs0 (client0\<lparr>processEntry := 2\<rparr>)
       [FileEntry_zero\<lparr>Number := 5\<rparr>, FileEntry_zero\<lparr>Number := 6\<rparr>]
     = ([\<lparr>cb = 2, arg_entry = FileEntry_zero\<lparr>Number := 5\<rparr>,
          arg_client = client0\<lparr>processEntry := 2, entries := [FileEntry_zero\<lparr>Number := 6\<rparr>],
                         nextEntry := 6\<rparr>,
          arg_relay = None, ret = Some (ErrOther 2)\<rparr>],
        Returns (client0\<lparr>processEntry := 2, entries := [FileEntry_zero\<lparr>Number := 6\<rparr>],
                   nextEntry := 6\<rparr>, ErrOther 2))"
    by (simp add: cbs0_def client0_def NewClient_def FileEntry_zero_def Let_def)
  from getStreaming_calls [OF run] run show ?thesis by simp
qed

text \<open>
  C2, as the code has it. \<open>getStreaming\<close> sets the cursor from the entry: after an entry
  whose callback succeeds and leaves the cursor alone, \<open>nextEntry\<close> is the number of that
  entry plus one (in 64 bits), whatever it was before. So with callbacks of that kind the
  consumer takes every entry delivered, and afterwards the cursor is the number of the
  last entry plus one; when the entries are numbered consecutively from the cursor, that
  is the cursor of the start plus the number of entries delivered.
\<close>

theorem getStreaming_cursor:
  assumes "\<forall>h e c s. snd (cbs h e c s) = None \<and> nextEntry (fst (cbs h e c s)) = nextEntry c"
    and "getStreaming_loop cbs c es = (calls, out)"
  shows "\<exists>c'. out = Blocks c' \<and> length calls = length es
           \<and> nextEntry c' = (if es = [] then nextEntry c else Number (last es) + 1)
           \<and> ((\<forall>i<length es. Number (es ! i) = nextEntry c + word_of_nat i)
                \<longrightarrow> nextEntry c' = nextEntry c + word_of_nat (length es))"
proof -
  from getStreaming_loop_last [OF assms] obtain c' where
    c': "out = Blocks c'" "length calls = length es"
      "nextEntry c' = (if es = [] then nextEntry c else Number (last es) + 1)"
    by blast
  have "nextEntry c' = nextEntry c + word_of_nat (length es)"
    if "\<forall>i<length es. Number (es ! i) = nextEntry c + word_of_nat i"
  proof (cases "es = []")
    case True
    with c' show ?thesis by simp
  next
    case False
    with c' consecutive_last [OF False that] show ?thesis by simp
  qed
  with c' show ?thesis by blast
qed

theorem getStreaming_cursor_witness:
  "snd (getStreaming_loop (\<lambda>h. PrintReceivedEntry) (client0\<lparr>nextEntry := 7\<rparr>)
          [FileEntry_zero\<lparr>Number := 7\<rparr>, FileEntry_zero\<lparr>Number := 8\<rparr>])
     = Blocks (client0\<lparr>nextEntry := 9\<rparr>)
   \<and> nextEntry (client0\<lparr>nextEntry := 9\<rparr>) = nextEntry (client0\<lparr>nextEntry := 7\<rparr>) + 2"
proof -
  let ?c = "client0\<lparr>nextEntry := 7\<rparr>"
  let ?es = "[FileEntry_zero\<lparr>Number := 7\<rparr>, FileEntry_zero\<lparr>Number := 8\<rparr>]"
  have ok: "\<forall>h e c s. snd ((\<lambda>h. PrintReceivedEntry) h e c s) = None
      \<and> nextEntry (fst ((\<lambda>h. PrintReceivedEntry) h e c s)) = nextEntry c"
    by (simp add: PrintReceivedEntry_def)
  have run: "getStreaming_loop (\<lambda>h. PrintReceivedEntry) ?c ?es
      = (fst (getStreaming_loop (\<lambda>h. PrintReceivedEntry) ?c ?es),
         snd (getStreaming_loop (\<lambda>h. PrintReceivedEntry) ?c ?es))"
    by simp
  have cons: "\<forall>i<length ?es. Number (?es ! i) = nextEntry ?c + word_of_nat i"
    by (simp add: FileEntry_zero_def client0_def NewClient_def less_Suc_eq)
  from getStreaming_cursor [OF ok run] cons
  show ?thesis
    by (simp add: PrintReceivedEntry_def Let_def FileEntry_zero_def client0_def NewClient_def)
qed

text \<open>
  The cursor does not advance by one from its value: with the cursor at 10, an entry with
  the number 3 (the stream was started again from an earlier entry) leaves it at 4.
\<close>

theorem getStreaming_cursor_counterexample:
  "nextEntry (client0\<lparr>nextEntry := 10\<rparr>) = 10
   \<and> snd (getStreaming cbs0 (client0\<lparr>nextEntry := 10, entries := [FileEntry_zero\<lparr>Number := 3\<rparr>]\<rparr>))
       = Blocks (client0\<lparr>nextEntry := 4\<rparr>)
   \<and> (4 :: uint64) \<noteq> 10 + 1 \<and> (4 :: uint64) < 10"
  by (simp add: getStreaming_def cbs0_def PrintReceivedEntry_def client0_def NewClient_def
        FileEntry_zero_def Let_def)

text \<open>
  C3. \<open>connectServer\<close> returns a boolean, and when it returns the client is connected.
  Failed dials are slept through one by one. A dial that succeeds while \<open>streaming\<close> is
  false returns false. A dial that succeeds while \<open>streaming\<close> is true (the client is then
  started) sends Start with \<open>fromEntry = nextEntry\<close> without awaiting the result: when the
  three writes succeed it returns true, with \<open>fromStream\<close> set to the cursor; when a write
  fails it closes the connection, sleeps once and goes on with the next dial.
\<close>

theorem connectServer_resume:
  "(connectServer p (ds, sl) c = Returns (b, w', c') \<longrightarrow> connected c')
   \<and> (\<not> connected c \<longrightarrow>
        connectServer p (map DialErr (e # es) @ ds, sl) c
          = connectServer p (ds, sl + length (e # es)) (c\<lparr>conn := None\<rparr>))
   \<and> (\<not> connected c \<and> \<not> streaming c \<longrightarrow>
        connectServer p (DialOk k # ds, sl) c
          = Returns (False, (ds, sl), c\<lparr>conn := Some k, connected := True, ID := localAddr k\<rparr>))
   \<and> (distinct_consts p \<and> \<not> connected c \<and> streaming c \<and> started c \<longrightarrow>
        (case write_all k (command_frames p (CmdStart p) (streamType c) (nextEntry c) []) of
           (k', None) \<Rightarrow>
             sent k' = sent k @ PutUint64 (CmdStart p) @ PutUint64 (streamType c) @ PutUint64 (nextEntry c)
             \<and> connectServer p (DialOk k # ds, sl) c
               = Returns (True, (ds, sl),
                          c\<lparr>conn := Some k', connected := True, ID := localAddr k,
                            streaming := True, fromStream := nextEntry c\<rparr>)
         | (k', Some err) \<Rightarrow>
             connectServer p (DialOk k # ds, sl) c
               = connectServer p (ds, Suc sl)
                   (closeConnection (c\<lparr>connected := True, ID := localAddr k, conn := Some k'\<rparr>))))"
proof (intro conjI impI)
  assume "connectServer p (ds, sl) c = Returns (b, w', c')"
  then show "connected c'" by (rule connectServer_connected)
next
  assume "\<not> connected c"
  then show "connectServer p (map DialErr (e # es) @ ds, sl) c
          = connectServer p (ds, sl + length (e # es)) (c\<lparr>conn := None\<rparr>)"
    by (rule connectServer_dial_errors)
next
  assume "\<not> connected c \<and> \<not> streaming c"
  then show "connectServer p (DialOk k # ds, sl) c
          = Returns (False, (ds, sl), c\<lparr>conn := Some k, connected := True, ID := localAddr k\<rparr>)"
    by simp
next
  assume a: "distinct_consts p \<and> \<not> connected c \<and> streaming c \<and> started c"
  let ?c = "c\<lparr>conn := Some k, connected := True, ID := localAddr k\<rparr>"
  let ?fs = "command_frames p (CmdStart p) (streamType c) (nextEntry c) []"
  have fs: "concat ?fs = PutUint64 (CmdStart p) @ PutUint64 (streamType c) @ PutUint64 (nextEntry c)"
    by (simp add: command_frames_def)
  obtain k' r where w: "write_all k ?fs = (k', r)" by (cases "write_all k ?fs")
  have ex: "execCommand p ?c (CmdStart p) True (nextEntry c) [] =
      (case r of
         Some e \<Rightarrow> Returns (?c\<lparr>conn := Some k'\<rparr>, HeaderEntry_zero, FileEntry_zero, Some e)
       | None \<Rightarrow> execCommand_result p (CmdStart p) True (nextEntry c) (?c\<lparr>conn := Some k'\<rparr>))"
    using execCommand_unfold [of p ?c "CmdStart p" k True "nextEntry c" "[]"] a w
    by (simp add: IsACommand_Start cong: option.case_cong)
  show "case write_all k ?fs of
           (k', None) \<Rightarrow>
             sent k' = sent k @ PutUint64 (CmdStart p) @ PutUint64 (streamType c) @ PutUint64 (nextEntry c)
             \<and> connectServer p (DialOk k # ds, sl) c
               = Returns (True, (ds, sl),
                          c\<lparr>conn := Some k', connected := True, ID := localAddr k,
                            streaming := True, fromStream := nextEntry c\<rparr>)
         | (k', Some err) \<Rightarrow>
             connectServer p (DialOk k # ds, sl) c
               = connectServer p (ds, Suc sl)
                   (closeConnection (c\<lparr>connected := True, ID := localAddr k, conn := Some k'\<rparr>))"
  proof (cases r)
    case None
    with w have "sent k' = sent k @ concat ?fs" by (simp add: write_all_sent)
    moreover from w None ex a have "connectServer p (DialOk k # ds, sl) c
               = Returns (True, (ds, sl),
                          c\<lparr>conn := Some k', connected := True, ID := localAddr k,
                            streaming := True, fromStream := nextEntry c\<rparr>)"
      by (simp add: Let_def execCommand_result_def execCommand_response_def)
    ultimately show ?thesis using w None fs by simp
  next
    case (Some err)
    with w ex a show ?thesis
      by (simp add: Let_def)
  qed
qed

theorem connectServer_resume_witness:
  "connectServer proto0 ([DialErr (ErrOther 1), DialOk conn0], 0) client1
     = Returns (True, ([], 1),
                client1\<lparr>conn := Some (conn0\<lparr>sent := [0,0,0,0,0,0,0,1, 0,0,0,0,0,0,0,1, 0,0,0,0,0,0,0,9]\<rparr>),
                  connected := True, ID := ''127.0.0.1:40000'', streaming := True, fromStream := 9\<rparr>)
   \<and> connectServer proto0 ([DialOk (conn0\<lparr>wscript := [None, Some (3, ErrOther 5)]\<rparr>)], 0) client1
     = Retrying"
proof -
  let ?c = "client1\<lparr>conn := None\<rparr>"
  let ?k = "conn0\<lparr>wscript := [None, Some (3, ErrOther 5)]\<rparr>"
  have c: "\<not> connected client1" "streaming client1" "started client1" "streamType client1 = 1"
    "nextEntry client1 = 9" "client1\<lparr>conn := None\<rparr> = client1"
    by (simp_all add: client1_def NewClient_def)
  have w: "write_all conn0 (command_frames proto0 (CmdStart proto0) 1 9 [])
       = (conn0\<lparr>sent := [0,0,0,0,0,0,0,1, 0,0,0,0,0,0,0,1, 0,0,0,0,0,0,0,9]\<rparr>, None)"
    "write_all ?k (command_frames proto0 (CmdStart proto0) 1 9 [])
       = (conn0\<lparr>sent := [0,0,0,0,0,0,0,1, 0,0,0], wscript := []\<rparr>, Some (ErrOther 5))"
    by (simp_all add: command_frames_def proto0_def Write_def conn0_def PutUint64_def)
  note t = connectServer_resume [where p = proto0 and c = client1 and sl = 0]
  from t [where ds = "[DialOk conn0]" and e = "ErrOther 1" and es = "[]"]
  have 1: "connectServer proto0 ([DialErr (ErrOther 1), DialOk conn0], 0) client1
      = connectServer proto0 ([DialOk conn0], 1) client1"
    using c by simp
  from connectServer_resume [where p = proto0 and c = client1 and sl = 1 and ds = "[]" and k = conn0]
  have 2: "connectServer proto0 ([DialOk conn0], 1) client1
      = Returns (True, ([], 1),
                client1\<lparr>conn := Some (conn0\<lparr>sent := [0,0,0,0,0,0,0,1, 0,0,0,0,0,0,0,1, 0,0,0,0,0,0,0,9]\<rparr>),
                  connected := True, ID := ''127.0.0.1:40000'', streaming := True, fromStream := 9\<rparr>)"
    using c w distinct_proto0 by (simp add: conn0_def del: write_all.simps connectServer.simps)
  from t [where ds = "[]" and k = ?k]
  have 3: "connectServer proto0 ([DialOk ?k], 0) client1 = Retrying"
    using c w distinct_proto0
    by (simp add: closeConnection_def del: write_all.simps connectServer.simps(2))
  from 1 2 3 show ?thesis by simp
qed

text \<open>
  C4. An iteration of the dispatcher in which \<open>connectServer\<close> returned true (a resume
  was sent with its result deferred), the packet is a Result, the result is decoded and
  the channel \<open>results\<close> has room: the result is appended to the channel, the head of the
  channel is taken as the deferred result, and when its code is not OK the connection is
  closed, the dispatcher sleeps once, and the iteration ends with \<open>connected\<close> false, so
  the next one dials again. The result taken is no longer in the channel; it is the one
  just received when the channel was empty before.
\<close>

theorem readEntries_deferred_result:
  assumes "connectServer p w c = Returns (True, w1, c1)"
    and "readContent c1 1 = Returns (c2, Inr [PtResult p])"
    and "readResultEntry p c2 = Returns (c3, Inr r)"
    and "length (results c3) < resultsBuffer"
  shows "readEntries_iter p w c =
           (if errorNum (hd (results c3 @ [r])) \<noteq> CmdErrOK p
            then Returns ((fst w1, Suc (snd w1)), closeConnection (c3\<lparr>results := tl (results c3 @ [r])\<rparr>))
            else Returns (w1, c3\<lparr>results := tl (results c3 @ [r])\<rparr>))
       \<and> \<not> connected (closeConnection (c3\<lparr>results := tl (results c3 @ [r])\<rparr>))
       \<and> (results c3 = [] \<longrightarrow> hd (results c3 @ [r]) = r \<and> tl (results c3 @ [r]) = [])"
proof -
  obtain q qs where q: "results c3 @ [r] = q # qs" by (cases "results c3 @ [r]") auto
  have "readEntries_iter p w c =
           (if errorNum q \<noteq> CmdErrOK p
            then Returns ((fst w1, Suc (snd w1)), closeConnection (c3\<lparr>results := qs\<rparr>))
            else Returns (w1, c3\<lparr>results := qs\<rparr>))"
    using assms q by (simp add: readEntries_iter_def getResult_def Let_def)
  with q show ?thesis by (simp add: closeConnection_def)
qed

theorem readEntries_deferred_result_witness:
  "readEntries_iter proto0 ([DialOk conn1, DialOk conn0], 0) client1
     = Returns (([DialOk conn0], 1),
                client1\<lparr>conn := Some (conn0\<lparr>sent := [0,0,0,0,0,0,0,1, 0,0,0,0,0,0,0,1, 0,0,0,0,0,0,0,9],
                                          closed := True\<rparr>),
                  connected := False, ID := ''127.0.0.1:40000'', streaming := True, fromStream := 9\<rparr>)
   \<and> readEntries proto0 2
         ([DialOk conn1, DialOk (conn0\<lparr>inbound := [255, 0, 0, 0, 9, 0, 0, 0, 0]\<rparr>)], 0) client1
     = Returns (([], 1),
                client1\<lparr>conn := Some (conn0\<lparr>sent := [0,0,0,0,0,0,0,1, 0,0,0,0,0,0,0,1, 0,0,0,0,0,0,0,9]\<rparr>),
                  connected := True, ID := ''127.0.0.1:40000'', streaming := True, fromStream := 9\<rparr>)"
proof -
  have again: "readEntries proto0 2
         ([DialOk conn1, DialOk (conn0\<lparr>inbound := [255, 0, 0, 0, 9, 0, 0, 0, 0]\<rparr>)], 0) client1
     = Returns (([], 1),
                client1\<lparr>conn := Some (conn0\<lparr>sent := [0,0,0,0,0,0,0,1, 0,0,0,0,0,0,0,1, 0,0,0,0,0,0,0,9]\<rparr>),
                  connected := True, ID := ''127.0.0.1:40000'', streaming := True, fromStream := 9\<rparr>)"
    by code_simp
  let ?k = "conn0\<lparr>sent := [0,0,0,0,0,0,0,1, 0,0,0,0,0,0,0,1, 0,0,0,0,0,0,0,9]\<rparr>"
  let ?c1 = "client1\<lparr>conn := Some (?k\<lparr>inbound := [255, 0, 0, 0, 9, 0, 0, 0, 1]\<rparr>),
                  connected := True, ID := ''127.0.0.1:40000'', streaming := True, fromStream := 9\<rparr>"
  let ?c2 = "client1\<lparr>conn := Some (?k\<lparr>inbound := [0, 0, 0, 9, 0, 0, 0, 1]\<rparr>),
                  connected := True, ID := ''127.0.0.1:40000'', streaming := True, fromStream := 9\<rparr>"
  let ?c3 = "client1\<lparr>conn := Some ?k,
                  connected := True, ID := ''127.0.0.1:40000'', streaming := True, fromStream := 9\<rparr>"
  have a: "connectServer proto0 ([DialOk conn1, DialOk conn0], 0) client1
             = Returns (True, ([DialOk conn0], 0), ?c1)"
    "readContent ?c1 1 = Returns (?c2, Inr [PtResult proto0])"
    "readResultEntry proto0 ?c2 = Returns (?c3, Inr \<lparr>errorNum = 1, errorStr = []\<rparr>)"
    "length (results ?c3) < resultsBuffer"
    by code_simp+
  from readEntries_deferred_result [OF a] have "readEntries_iter proto0 ([DialOk conn1, DialOk conn0], 0) client1
     = Returns (([DialOk conn0], 1),
                client1\<lparr>conn := Some (conn0\<lparr>sent := [0,0,0,0,0,0,0,1, 0,0,0,0,0,0,0,1, 0,0,0,0,0,0,0,9],
                                          closed := True\<rparr>),
                  connected := False, ID := ''127.0.0.1:40000'', streaming := True, fromStream := 9\<rparr>)"
    by (simp add: client1_def NewClient_def proto0_def closeConnection_def conn0_def)
  from this again show ?thesis by (rule conjI)
qed

text \<open>
  C5. A command whose writes succeed and whose result, the head of the channel \<open>results\<close>,
  has the code OK: Start sets \<open>streaming\<close> and records \<open>fromEntry\<close> in \<open>fromStream\<close>;
  StartBookmark sets \<open>streaming\<close> and leaves \<open>fromStream\<close>; Stop clears \<open>streaming\<close>; Header
  takes the header from the channel \<open>headers\<close>, records its \<open>TotalEntries\<close> and returns it;
  Entry and Bookmark take the entry from the channel \<open>entryRsp\<close> and return it when its
  type is not the "not found" type.
\<close>

theorem execCommand_success:
  assumes "distinct_consts p" "started c" "conn c = Some k"
    and "write_all k (command_frames p cmd (streamType c) fromEntry fromBookmark) = (k', None)"
    and "results c = r # rs" "errorNum r = CmdErrOK p"
  shows "(cmd = CmdStart p \<longrightarrow>
            execCommand p c cmd False fromEntry fromBookmark
              = Returns (c\<lparr>conn := Some k', results := rs, streaming := True, fromStream := fromEntry\<rparr>,
                         HeaderEntry_zero, FileEntry_zero, None))
       \<and> (cmd = CmdStartBookmark p \<longrightarrow>
            execCommand p c cmd False fromEntry fromBookmark
              = Returns (c\<lparr>conn := Some k', results := rs, streaming := True\<rparr>,
                         HeaderEntry_zero, FileEntry_zero, None))
       \<and> (cmd = CmdStop p \<longrightarrow>
            execCommand p c cmd False fromEntry fromBookmark
              = Returns (c\<lparr>conn := Some k', results := rs, streaming := False\<rparr>,
                         HeaderEntry_zero, FileEntry_zero, None))
       \<and> (cmd = CmdHeader p \<and> headers c = h # hs \<longrightarrow>
            execCommand p c cmd False fromEntry fromBookmark
              = Returns (c\<lparr>conn := Some k', results := rs, headers := hs, totalEntries := TotalEntries h\<rparr>,
                         h, FileEntry_zero, None))
       \<and> ((cmd = CmdEntry p \<or> cmd = CmdBookmark p) \<and> entryRsp c = e # es
            \<and> Type e \<noteq> EntryTypeNotFound p \<longrightarrow>
            execCommand p c cmd False fromEntry fromBookmark
              = Returns (c\<lparr>conn := Some k', results := rs, entryRsp := es\<rparr>, HeaderEntry_zero, e, None))"
proof -
  note neq = distinct_cmds [OF assms(1)]
  have post: "IsACommand p cmd \<Longrightarrow> execCommand p c cmd False fromEntry fromBookmark
      = execCommand_response p cmd fromEntry (c\<lparr>conn := Some k', results := rs\<rparr>)"
    using execCommand_sent_ok [OF assms(1,2) _ assms(3,4), of False] assms(5,6)
    by (simp add: execCommand_result_def getResult_def)
  show ?thesis
    using post
    by (auto simp: IsACommand_def execCommand_response_def getHeader_def getEntry_def neq)
qed

theorem execCommand_success_witness:
  "execCommand proto0 (client0\<lparr>results := [\<lparr>errorNum = 0, errorStr = []\<rparr>]\<rparr>) 1 False 7 []
     = Returns (client0\<lparr>conn := Some (conn0\<lparr>sent := [0,0,0,0,0,0,0,1, 0,0,0,0,0,0,0,1, 0,0,0,0,0,0,0,7]\<rparr>),
                        results := [], streaming := True, fromStream := 7\<rparr>,
                HeaderEntry_zero, FileEntry_zero, None)"
proof -
  let ?c = "client0\<lparr>results := [\<lparr>errorNum = 0, errorStr = []\<rparr>]\<rparr>"
  have a: "started ?c" "conn ?c = Some conn0"
    "write_all conn0 (command_frames proto0 1 (streamType ?c) 7 [])
       = (conn0\<lparr>sent := [0,0,0,0,0,0,0,1, 0,0,0,0,0,0,0,1, 0,0,0,0,0,0,0,7]\<rparr>, None)"
    "results ?c = \<lparr>errorNum = 0, errorStr = []\<rparr> # []"
    "errorNum \<lparr>errorNum = 0, errorStr = []\<rparr> = CmdErrOK proto0"
    by (simp_all add: client0_simps write_all_conn0 del: write_all.simps) (simp add: proto0_def)
  show ?thesis
    using execCommand_success [OF distinct_proto0 a]
    by (simp add: proto0_def)
qed

text \<open>
  C6. A command that awaits its result and receives a code other than OK returns
  \<open>ErrResultCommandError\<close>; the client it leaves differs from the one given in the
  connection written to and in the channel \<open>results\<close> only, so \<open>streaming\<close>, \<open>fromStream\<close>
  and \<open>totalEntries\<close> are as before. A deferred Start, StartBookmark or Stop takes nothing
  from the channel \<open>results\<close> and sets \<open>streaming\<close> (and, for Start, \<open>fromStream\<close>) as soon
  as the writes are done.
\<close>

theorem execCommand_result_error:
  assumes "distinct_consts p" "started c" "IsACommand p cmd" "conn c = Some k"
    and "write_all k (command_frames p cmd (streamType c) fromEntry fromBookmark) = (k', None)"
  shows "(results c = r # rs \<and> errorNum r \<noteq> CmdErrOK p \<longrightarrow>
            execCommand p c cmd False fromEntry fromBookmark
              = Returns (c\<lparr>conn := Some k', results := rs\<rparr>, HeaderEntry_zero, FileEntry_zero,
                         Some ErrResultCommandError))
       \<and> (cmd = CmdStart p \<longrightarrow>
            execCommand p c cmd True fromEntry fromBookmark
              = Returns (c\<lparr>conn := Some k', streaming := True, fromStream := fromEntry\<rparr>,
                         HeaderEntry_zero, FileEntry_zero, None))
       \<and> (cmd = CmdStartBookmark p \<longrightarrow>
            execCommand p c cmd True fromEntry fromBookmark
              = Returns (c\<lparr>conn := Some k', streaming := True\<rparr>, HeaderEntry_zero, FileEntry_zero, None))
       \<and> (cmd = CmdStop p \<longrightarrow>
            execCommand p c cmd True fromEntry fromBookmark
              = Returns (c\<lparr>conn := Some k', streaming := False\<rparr>, HeaderEntry_zero, FileEntry_zero, None))"
proof -
  note neq = distinct_cmds [OF assms(1)]
  have post: "execCommand p c cmd d fromEntry fromBookmark
      = execCommand_result p cmd d fromEntry (c\<lparr>conn := Some k'\<rparr>)" for d
    using execCommand_sent_ok [OF assms] .
  show ?thesis
    using post
    by (auto simp: execCommand_result_def execCommand_response_def getResult_def neq)
qed

theorem execCommand_result_error_witness:
  "execCommand proto0 (client0\<lparr>results := [\<lparr>errorNum = 2, errorStr = []\<rparr>]\<rparr>) 1 False 7 []
     = Returns (client0\<lparr>conn := Some (conn0\<lparr>sent := [0,0,0,0,0,0,0,1, 0,0,0,0,0,0,0,1, 0,0,0,0,0,0,0,7]\<rparr>),
                        results := []\<rparr>,
                HeaderEntry_zero, FileEntry_zero, Some ErrResultCommandError)
   \<and> execCommand proto0 (client0\<lparr>results := [\<lparr>errorNum = 2, errorStr = []\<rparr>]\<rparr>) 1 True 7 []
     = Returns (client0\<lparr>conn := Some (conn0\<lparr>sent := [0,0,0,0,0,0,0,1, 0,0,0,0,0,0,0,1, 0,0,0,0,0,0,0,7]\<rparr>),
                        results := [\<lparr>errorNum = 2, errorStr = []\<rparr>], streaming := True, fromStream := 7\<rparr>,
                HeaderEntry_zero, FileEntry_zero, None)"
proof -
  let ?c = "client0\<lparr>results := [\<lparr>errorNum = 2, errorStr = []\<rparr>]\<rparr>"
  have a: "started ?c" "IsACommand proto0 1" "conn ?c = Some conn0"
    "write_all conn0 (command_frames proto0 1 (streamType ?c) 7 [])
       = (conn0\<lparr>sent := [0,0,0,0,0,0,0,1, 0,0,0,0,0,0,0,1, 0,0,0,0,0,0,0,7]\<rparr>, None)"
    by (simp_all add: client0_simps write_all_conn0 del: write_all.simps)
       (simp add: IsACommand_def proto0_def)
  show ?thesis
    using execCommand_result_error [OF distinct_proto0 a, of "\<lparr>errorNum = 2, errorStr = []\<rparr>" "[]"]
    by (simp add: proto0_def)
qed

text \<open>
  C7. A command issued while \<open>started\<close> is false fails with the "not allowed" error, and
  a command value that is none of the six opcodes, issued while started, fails with the
  "invalid command" error; in both cases the client returned is the one given, with its
  connection and the bytes sent on it as they were.
\<close>

theorem execCommand_rejects:
  "(\<not> started c \<longrightarrow>
      execCommand p c cmd d fromEntry fromBookmark
        = Returns (c, HeaderEntry_zero, FileEntry_zero, Some ErrExecCommandNotAllowed))
   \<and> (started c \<and> cmd \<notin> {CmdStart p, CmdStop p, CmdHeader p, CmdStartBookmark p, CmdEntry p, CmdBookmark p} \<longrightarrow>
      execCommand p c cmd d fromEntry fromBookmark
        = Returns (c, HeaderEntry_zero, FileEntry_zero, Some ErrInvalidCommand))"
  by (simp add: execCommand_def IsACommand_def)

theorem execCommand_rejects_witness:
  "execCommand proto0 (NewClient ''127.0.0.1:6900'' 1) 1 False 0 []
     = Returns (NewClient ''127.0.0.1:6900'' 1, HeaderEntry_zero, FileEntry_zero,
                Some ErrExecCommandNotAllowed)
   \<and> execCommand proto0 client0 7 False 0 []
     = Returns (client0, HeaderEntry_zero, FileEntry_zero, Some ErrInvalidCommand)"
  using execCommand_rejects [of "NewClient ''127.0.0.1:6900'' 1" proto0 1 False 0 "[]"]
    execCommand_rejects [of client0 proto0 7 False 0 "[]"]
  by (simp add: NewClient_def client0_def proto0_def)

text \<open>
  C8. Once the writes and the result are through, an Entry command that receives an entry
  of the "not found" type returns \<open>ErrEntryNotFound\<close> and the empty entry, a Bookmark
  command returns \<open>ErrBookmarkNotFound\<close> and the empty entry, and with any other type the
  entry received is returned.
\<close>

theorem execCommand_not_found:
  assumes "distinct_consts p" "started c" "conn c = Some k"
    and "write_all k (command_frames p cmd (streamType c) fromEntry fromBookmark) = (k', None)"
    and "if d then rs = results c else (\<exists>r. results c = r # rs \<and> errorNum r = CmdErrOK p)"
    and "entryRsp c = e # es"
  shows "(cmd = CmdEntry p \<longrightarrow>
            execCommand p c cmd d fromEntry fromBookmark
              = (if Type e = EntryTypeNotFound p
                 then Returns (c\<lparr>conn := Some k', results := rs, entryRsp := es\<rparr>,
                               HeaderEntry_zero, FileEntry_zero, Some ErrEntryNotFound)
                 else Returns (c\<lparr>conn := Some k', results := rs, entryRsp := es\<rparr>,
                               HeaderEntry_zero, e, None)))
       \<and> (cmd = CmdBookmark p \<longrightarrow>
            execCommand p c cmd d fromEntry fromBookmark
              = (if Type e = EntryTypeNotFound p
                 then Returns (c\<lparr>conn := Some k', results := rs, entryRsp := es\<rparr>,
                               HeaderEntry_zero, FileEntry_zero, Some ErrBookmarkNotFound)
                 else Returns (c\<lparr>conn := Some k', results := rs, entryRsp := es\<rparr>,
                               HeaderEntry_zero, e, None)))"
proof -
  note neq = distinct_cmds [OF assms(1)]
  have post: "IsACommand p cmd \<Longrightarrow> execCommand p c cmd d fromEntry fromBookmark
      = execCommand_response p cmd fromEntry (c\<lparr>conn := Some k', results := rs\<rparr>)"
    using execCommand_sent_ok [OF assms(1,2) _ assms(3,4), of d] assms(5)
    by (cases d) (auto simp: execCommand_result_def getResult_def)
  show ?thesis
    using post assms(6)
    by (auto simp: IsACommand_def execCommand_response_def getEntry_def neq)
qed

theorem execCommand_not_found_witness:
  "execCommand proto0
     (client0\<lparr>results := [\<lparr>errorNum = 0, errorStr = []\<rparr>],
              entryRsp := [\<lparr>Number = 0, Length = 17, Type = 4294967295, Data = []\<rparr>]\<rparr>) 5 False 7 []
     = Returns (client0\<lparr>conn := Some (conn0\<lparr>sent := [0,0,0,0,0,0,0,5, 0,0,0,0,0,0,0,1, 0,0,0,0,0,0,0,7]\<rparr>),
                        results := [], entryRsp := []\<rparr>,
                HeaderEntry_zero, FileEntry_zero, Some ErrEntryNotFound)"
proof -
  let ?e = "\<lparr>Number = 0, Length = 17, Type = 4294967295, Data = []\<rparr>"
  let ?c = "client0\<lparr>results := [\<lparr>errorNum = 0, errorStr = []\<rparr>], entryRsp := [?e]\<rparr>"
  have a: "started ?c" "conn ?c = Some conn0"
    "write_all conn0 (command_frames proto0 5 (streamType ?c) 7 [])
       = (conn0\<lparr>sent := [0,0,0,0,0,0,0,5, 0,0,0,0,0,0,0,1, 0,0,0,0,0,0,0,7]\<rparr>, None)"
    "if False then [] = results ?c
     else (\<exists>r. results ?c = r # [] \<and> errorNum r = CmdErrOK proto0)"
    "entryRsp ?c = ?e # []"
    by (simp_all add: client0_simps write_all_conn0 del: write_all.simps) (simp add: proto0_def)
  show ?thesis
    using execCommand_not_found [OF distinct_proto0 a]
    by (simp add: proto0_def)
qed

text \<open>
  C9. A valid command sent while started, on a connection that is not nil, writes the
  buffers of the command in order: the opcode and the stream type as 8 bytes big-endian,
  then the entry number as 8 bytes (Start, Entry) or the length as 4 bytes and the bookmark
  (StartBookmark, Bookmark). When a write fails the command returns that error, and what
  was sent is the buffers before the failing one and a part of the failing one. When none
  fails exactly these bytes were sent, and the command goes on to its result.
\<close>

theorem execCommand_writes:
  assumes "distinct_consts p" "started c" "IsACommand p cmd" "conn c = Some k"
  shows "case write_all k (command_frames p cmd (streamType c) fromEntry fromBookmark) of
       (k', Some e) \<Rightarrow>
         execCommand p c cmd d fromEntry fromBookmark
           = Returns (c\<lparr>conn := Some k'\<rparr>, HeaderEntry_zero, FileEntry_zero, Some e)
         \<and> (\<exists>i n. i < length (command_frames p cmd (streamType c) fromEntry fromBookmark)
              \<and> sent k' = sent k @ concat (take i (command_frames p cmd (streamType c) fromEntry fromBookmark))
                        @ take n (command_frames p cmd (streamType c) fromEntry fromBookmark ! i))
     | (k', None) \<Rightarrow>
         sent k' = sent k @ concat (command_frames p cmd (streamType c) fromEntry fromBookmark)
         \<and> execCommand p c cmd d fromEntry fromBookmark
           = execCommand_result p cmd d fromEntry (c\<lparr>conn := Some k'\<rparr>)"
proof -
  obtain k' r where w: "write_all k (command_frames p cmd (streamType c) fromEntry fromBookmark) = (k', r)"
    by (cases "write_all k (command_frames p cmd (streamType c) fromEntry fromBookmark)")
  show ?thesis
  proof (cases r)
    case None
    with w show ?thesis
      using execCommand_unfold [OF assms, of d fromEntry fromBookmark] write_all_sent [of k _ k']
      by simp
  next
    case (Some e)
    with w show ?thesis
      using execCommand_unfold [OF assms, of d fromEntry fromBookmark] write_all_fails [of k _ k' e]
      by simp
  qed
qed

theorem execCommand_writes_witness:
  "execCommand proto0 client0 4 True 0 [1, 2, 3]
     = execCommand_result proto0 4 True 0
         (client0\<lparr>conn := Some (conn0\<lparr>sent := [0,0,0,0,0,0,0,4, 0,0,0,0,0,0,0,1, 0,0,0,3, 1,2,3]\<rparr>)\<rparr>)
   \<and> execCommand proto0 (client0\<lparr>conn := Some (conn0\<lparr>wscript := [None, Some (3, ErrOther 5)]\<rparr>)\<rparr>) 1 False 7 []
     = Returns (client0\<lparr>conn := Some (conn0\<lparr>sent := [0,0,0,0,0,0,0,1, 0,0,0], wscript := []\<rparr>)\<rparr>,
                HeaderEntry_zero, FileEntry_zero, Some (ErrOther 5))"
proof -
  have cmds: "IsACommand proto0 4" "IsACommand proto0 1"
    by (simp_all add: IsACommand_def proto0_def)
  have a: "started (client0\<lparr>conn := Some (conn0\<lparr>wscript := [None, Some (3, ErrOther 5)]\<rparr>)\<rparr>)"
    "conn (client0\<lparr>conn := Some (conn0\<lparr>wscript := [None, Some (3, ErrOther 5)]\<rparr>)\<rparr>)
       = Some (conn0\<lparr>wscript := [None, Some (3, ErrOther 5)]\<rparr>)"
    by (simp_all add: client0_simps)
  show ?thesis
    using execCommand_writes [OF distinct_proto0 client0_simps(1) cmds(1) client0_simps(2), of 0 "[1, 2, 3]" True]
      execCommand_writes [OF distinct_proto0 a(1) cmds(2) a(2), of 7 "[]" False]
    by (simp add: write_all_conn0 client0_simps del: write_all.simps)
qed

text \<open>
  C10. With a nil connection each of the three write helpers panics: the error is set to
  \<open>ErrNilConnection\<close>, and the log line that precedes the return calls \<open>RemoteAddr\<close> on the
  nil connection.
\<close>

theorem writeFull_nil_panics:
  "writeFullUint64 v None = Panics \<and> writeFullUint32 w None = Panics \<and> writeFullBytes b None = Panics"
  by (simp add: writeFullUint64_def writeFullUint32_def writeFullBytes_def)

end
